theory Spec2Isabelle
  imports Complex_Main "HOL-Library.Log_Nat"
begin

section \<open>JavaScript numbers\<close>

text \<open>
  The TypeScript type \<^verbatim>\<open>number\<close> is an IEEE 754 binary64 value. A finite value is
  kept as the rational it denotes; the two zeros are identified, since the converter
  never divides and never inspects the sign of a zero. Every arithmetic result is
  rounded to binary64 by \<open>round64\<close> (round to nearest, ties to even, overflow to
  infinity), so that \<^verbatim>\<open>amount * rate\<close> is the product the engine computes and not the
  exact one.
\<close>

datatype jsnum = NaN | PosInf | NegInf | Fin rat

text \<open>\<open>flog2 x\<close> is the binary exponent of a positive rational: \<open>2^k \<le> x < 2^(k+1)\<close>.\<close>

definition flog2 :: "rat \<Rightarrow> int" where
  "flog2 x = (let (p, q) = quotient_of x; k = bitlen p - bitlen q
              in if 2 powi k \<le> x then k else k - 1)"

text \<open>The nearest integer, the even one of two equally near.\<close>

definition ties_even :: "rat \<Rightarrow> int" where
  "ties_even q = (let f = \<lfloor>q\<rfloor>; r = q - of_int f
                  in if r < 1 / 2 then f else if 1 / 2 < r then f + 1
                     else if even f then f else f + 1)"

text \<open>
  The exponent of the unit in the last place at magnitude \<open>a\<close>: 53 significant bits,
  and the fixed spacing \<open>2^-1074\<close> in the subnormal range.
\<close>

definition ulp_exp :: "rat \<Rightarrow> int" where
  "ulp_exp a = max (flog2 a - 52) (- 1074)"

definition round64 :: "rat \<Rightarrow> jsnum" where
  "round64 x =
     (if x = 0 then Fin 0
      else let a = \<bar>x\<bar>;
               e = ulp_exp a;
               v = of_int (ties_even (a / 2 powi e)) * 2 powi e
           in if 2 ^ 1024 \<le> v then (if x < 0 then NegInf else PosInf)
              else Fin (if x < 0 then - v else v))"

text \<open>The finite binary64 values: the multiples of their own unit in the last place.\<close>

definition is_binary64 :: "rat \<Rightarrow> bool" where
  "is_binary64 x =
     (x = 0 \<or> (let a = \<bar>x\<bar>; q = a / 2 powi ulp_exp a
               in of_int \<lfloor>q\<rfloor> = q \<and> a < 2 ^ 1024))"

fun is_neg :: "jsnum \<Rightarrow> bool" where
  "is_neg (Fin a) = (a < 0)"
| "is_neg NegInf = True"
| "is_neg PosInf = False"
| "is_neg NaN = False"

text \<open>\<^verbatim>\<open>x * y\<close> (Number::multiply).\<close>

fun js_times :: "jsnum \<Rightarrow> jsnum \<Rightarrow> jsnum" where
  "js_times NaN y = NaN"
| "js_times x NaN = NaN"
| "js_times (Fin a) (Fin b) = round64 (a * b)"
| "js_times x y =
     (if x = Fin 0 \<or> y = Fin 0 then NaN
      else if is_neg x = is_neg y then PosInf else NegInf)"

text \<open>\<^verbatim>\<open>x <= y\<close> on numbers: false as soon as one side is NaN.\<close>

fun js_le :: "jsnum \<Rightarrow> jsnum \<Rightarrow> bool" where
  "js_le NaN y = False"
| "js_le x NaN = False"
| "js_le NegInf y = True"
| "js_le x PosInf = True"
| "js_le PosInf y = False"
| "js_le x NegInf = False"
| "js_le (Fin a) (Fin b) = (a \<le> b)"

text \<open>
  \<^verbatim>\<open>!v\<close> for a value that is a number or \<^verbatim>\<open>undefined\<close> (\<open>None\<close>): true for
  \<^verbatim>\<open>undefined\<close>, for zero and for NaN.
\<close>

fun js_not :: "jsnum option \<Rightarrow> bool" where
  "js_not None = True"
| "js_not (Some NaN) = True"
| "js_not (Some (Fin a)) = (a = 0)"
| "js_not (Some PosInf) = False"
| "js_not (Some NegInf) = False"

text \<open>
  The string \<^verbatim>\<open>x.toFixed(f)\<close> returns is read by nothing but \<^verbatim>\<open>Number(...)\<close>, so it is
  kept as the decimal it spells: \<open>Decimal s n f\<close> is the digits of \<open>n\<close> with \<open>f\<close> of
  them after the point, behind a minus sign when \<open>s\<close>; \<open>Shortest s a\<close> is what
  Number::toString prints for a magnitude of \<open>10^21\<close> or more, digits that by
  definition read back as the same number.
\<close>

datatype numstr = StrNaN | StrInfinity | StrNegInfinity
  | Decimal bool int nat | Shortest bool rat

text \<open>
  Number.prototype.toFixed: a value that is not finite prints as itself; otherwise the
  sign is split off and \<open>n\<close> is the integer for which \<open>n / 10^f\<close> is nearest to the
  magnitude, the larger of two equally near.
\<close>

fun toFixed :: "jsnum \<Rightarrow> nat \<Rightarrow> numstr" where
  "toFixed NaN f = StrNaN"
| "toFixed PosInf f = StrInfinity"
| "toFixed NegInf f = StrNegInfinity"
| "toFixed (Fin x) f =
     (let s = (x < 0); a = \<bar>x\<bar>
      in if 10 ^ 21 \<le> a then Shortest s a
         else Decimal s \<lfloor>a * 10 ^ f + 1 / 2\<rfloor> f)"

text \<open>\<^verbatim>\<open>Number(str)\<close>: the binary64 value nearest to the decimal.\<close>

fun Number :: "numstr \<Rightarrow> jsnum" where
  "Number StrNaN = NaN"
| "Number StrInfinity = PosInf"
| "Number StrNegInfinity = NegInf"
| "Number (Decimal s n f) = round64 ((if s then - of_int n else of_int n) / 10 ^ f)"
| "Number (Shortest s a) = Fin (if s then - a else a)"

text \<open>The decimal a \<open>toFixed\<close> string spells, for stating how far it is from its argument.\<close>

fun decimal_value :: "numstr \<Rightarrow> rat" where
  "decimal_value (Decimal s n f) = (if s then - of_int n else of_int n) / 10 ^ f"
| "decimal_value (Shortest s a) = (if s then - a else a)"
| "decimal_value StrNaN = 0"
| "decimal_value StrInfinity = 0"
| "decimal_value StrNegInfinity = 0"


section \<open>The rate provider\<close>

text \<open>
  What is thrown here: an error of axios, a plain \<^verbatim>\<open>Error\<close>, or the \<^verbatim>\<open>TypeError\<close> the
  engine raises when something that is not a function is called; each with its message.
  All are instances of \<^verbatim>\<open>Error\<close>.
\<close>

datatype exn = AxiosError string | Error string | TypeError string

fun message :: "exn \<Rightarrow> string" where
  "message (AxiosError m) = m"
| "message (Error m) = m"
| "message (TypeError m) = m"

fun isAxiosError :: "exn \<Rightarrow> bool" where
  "isAxiosError (AxiosError m) = True"
| "isAxiosError (Error m) = False"
| "isAxiosError (TypeError m) = False"

fun instanceof_Error :: "exn \<Rightarrow> bool" where
  "instanceof_Error (AxiosError m) = True"
| "instanceof_Error (Error m) = True"
| "instanceof_Error (TypeError m) = True"

text \<open>
  A \<^verbatim>\<open>Record<string, number>\<close> parsed from JSON: its own properties in enumeration
  order.
\<close>

type_synonym rates_record = "(string \<times> jsnum) list"

definition Object_keys :: "rates_record \<Rightarrow> string list" where
  "Object_keys r = map fst r"

text \<open>
  The object \<^verbatim>\<open>JSON.parse\<close> builds inherits from \<^verbatim>\<open>Object.prototype\<close>, so \<^verbatim>\<open>r[k]\<close> is
  the own property \<open>k\<close> when there is one, else the member of that name every object
  inherits, else \<^verbatim>\<open>undefined\<close>. The inherited members are functions, and
  \<^verbatim>\<open>__proto__\<close> an object: none is a number, all are truthy, and none has a method
  \<^verbatim>\<open>toFixed\<close>.
\<close>

definition Object_prototype :: "string list" where
  "Object_prototype =
     [''constructor'', ''hasOwnProperty'', ''isPrototypeOf'', ''propertyIsEnumerable'',
      ''toLocaleString'', ''toString'', ''valueOf'', ''__proto__'', ''__defineGetter__'',
      ''__defineSetter__'', ''__lookupGetter__'', ''__lookupSetter__'']"

datatype property = Undefined | Own jsnum | Inherited

definition js_get :: "rates_record \<Rightarrow> string \<Rightarrow> property" where
  "js_get r k =
     (case map_of r k of
        Some v \<Rightarrow> Own v
      | None \<Rightarrow> if k \<in> set Object_prototype then Inherited else Undefined)"

text \<open>\<^verbatim>\<open>!v\<close> for what such a read returns.\<close>

fun js_not_property :: "property \<Rightarrow> bool" where
  "js_not_property Undefined = js_not None"
| "js_not_property (Own v) = js_not (Some v)"
| "js_not_property Inherited = False"

text \<open>
  The body of a response, \<^verbatim>\<open>interface CurrencyData\<close>. At run time any declared field
  may be missing (\<open>None\<close>), and the body may carry properties the interface does not
  declare, which no code reads: they are kept in \<open>other\<close>. The provider reports a
  base code it does not know in such properties.
\<close>

record CurrencyData =
  base :: "string option"
  rates :: "rates_record option"
  timestamp :: "jsnum option"
  date :: "string option"
  other :: "(string \<times> string) list"

text \<open>\<^verbatim>\<open>interface ExchangeRates\<close>, what \<open>getExchangeRates\<close> returns.\<close>

record ExchangeRates =
  rates :: rates_record
  base :: "string option"
  date :: "string option"

text \<open>
  How \<^verbatim>\<open>await axios.get(url)\<close> ends: rejected with an axios error (the transport
  failed, or the status was not 2xx), or resolved with a response whose \<^verbatim>\<open>data\<close> is the
  parsed body (\<open>None\<close> when there is none). The network is a function from the URL
  to that outcome.
\<close>

datatype axios_outcome = Rejected string | Resolved "CurrencyData option"

type_synonym network = "string \<Rightarrow> axios_outcome"

definition latest_url :: "string \<Rightarrow> string" where
  "latest_url baseCurrency = ''https://open.er-api.com/v6/latest/'' @ baseCurrency"

text \<open>The \<^verbatim>\<open>try\<close> block of \<open>getExchangeRates\<close>.\<close>

definition getExchangeRates_try :: "network \<Rightarrow> string \<Rightarrow> exn + ExchangeRates" where
  "getExchangeRates_try get baseCurrency =
     (case get (latest_url baseCurrency) of
        Rejected m \<Rightarrow> Inl (AxiosError m)
      | Resolved None \<Rightarrow> Inl (Error ''Invalid response format'')
      | Resolved (Some d) \<Rightarrow>
          (case CurrencyData.rates d of
             None \<Rightarrow> Inl (Error ''Invalid response format'')
           | Some r \<Rightarrow>
               Inr \<lparr>ExchangeRates.rates = r,
                    ExchangeRates.base = CurrencyData.base d,
                    ExchangeRates.date = CurrencyData.date d\<rparr>))"

text \<open>The whole function: whatever the block throws is caught and thrown again as an \<^verbatim>\<open>Error\<close>.\<close>

definition getExchangeRates :: "network \<Rightarrow> string \<Rightarrow> exn + ExchangeRates" where
  "getExchangeRates get baseCurrency =
     (case getExchangeRates_try get baseCurrency of
        Inr exchangeRates \<Rightarrow> Inr exchangeRates
      | Inl err \<Rightarrow>
          (if isAxiosError err
           then Inl (Error (''Failed to fetch exchange rates: '' @ message err))
           else Inl (Error ''Failed to fetch exchange rates'')))"


section \<open>The converter\<close>

record ConversionResult =
  convertedAmount :: jsnum
  rate :: jsnum

text \<open>
  When \<^verbatim>\<open>rate\<close> is an inherited member, the product \<^verbatim>\<open>amount * rate\<close> is NaN and
  prints; the call \<^verbatim>\<open>rate.toFixed(6)\<close> then throws, \<^verbatim>\<open>rate.toFixed\<close> being
  \<^verbatim>\<open>undefined\<close>. The message of that \<^verbatim>\<open>TypeError\<close> is the engine's own wording.
\<close>

definition convertCurrency ::
  "network \<Rightarrow> string \<Rightarrow> string \<Rightarrow> jsnum \<Rightarrow> exn + ConversionResult" where
  "convertCurrency get fromCurrency toCurrency amount =
     (case getExchangeRates get fromCurrency of
        Inl err \<Rightarrow> Inl err
      | Inr exchangeRates \<Rightarrow>
          (let rate = js_get (ExchangeRates.rates exchangeRates) toCurrency
           in if js_not_property rate
              then Inl (Error (''Exchange rate not available for '' @ toCurrency))
              else (case rate of
                      Undefined \<Rightarrow>
                        Inl (Error (''Exchange rate not available for '' @ toCurrency))
                    | Own r \<Rightarrow>
                        (let convertedAmount = js_times amount r
                         in Inr \<lparr>ConversionResult.convertedAmount =
                                   Number (toFixed convertedAmount 4),
                                 ConversionResult.rate = Number (toFixed r 6)\<rparr>)
                    | Inherited \<Rightarrow> Inl (TypeError ''rate.toFixed is not a function''))))"


section \<open>The converter component\<close>

record CurrencyConversion =
  fromCurrency :: string
  toCurrency :: string
  amount :: jsnum
  convertedAmount :: "jsnum option"
  rate :: "jsnum option"

text \<open>The four \<^verbatim>\<open>useState\<close> cells of the component \<^verbatim>\<open>CurrencyConverter\<close>.\<close>

record CurrencyConverter =
  conversion :: CurrencyConversion
  currencies :: "string list"
  loading :: bool
  error :: string

text \<open>
  An \<^verbatim>\<open>async\<close> handler runs up to its \<^verbatim>\<open>await\<close> inside the event that called it and
  is then suspended, holding the arguments it captured, until its request settles.
  A configuration is the component state with the suspended calls, oldest first.
\<close>

datatype suspended = FetchCurrencies string | HandleConvert string string jsnum

type_synonym config = "CurrencyConverter \<times> suspended list"

definition initial :: CurrencyConverter where
  "initial =
     \<lparr>conversion = \<lparr>fromCurrency = ''USD'', toCurrency = ''EUR'', amount = Fin 1,
                     CurrencyConversion.convertedAmount = None,
                     CurrencyConversion.rate = None\<rparr>,
      currencies = [], loading = False, error = ''''\<rparr>"

text \<open>\<open>fetchCurrencies\<close> up to the \<^verbatim>\<open>await\<close>, and from it on.\<close>

definition fetchCurrencies :: "string \<Rightarrow> config \<Rightarrow> config" where
  "fetchCurrencies baseCurrency c =
     (case c of (s, ps) \<Rightarrow>
        (s\<lparr>loading := True, error := ''''\<rparr>, ps @ [FetchCurrencies baseCurrency]))"

definition fetchCurrencies_resume :: "network \<Rightarrow> string \<Rightarrow> CurrencyConverter \<Rightarrow> CurrencyConverter" where
  "fetchCurrencies_resume get baseCurrency s =
     (case getExchangeRates get baseCurrency of
        Inr exchangeRates \<Rightarrow>
          s\<lparr>currencies := Object_keys (ExchangeRates.rates exchangeRates)\<rparr>
      | Inl err \<Rightarrow>
          s\<lparr>error := (if instanceof_Error err then message err
                       else ''Failed to fetch currencies'')\<rparr>)
     \<lparr>loading := False\<rparr>"

text \<open>\<open>handleConvert\<close> up to the \<^verbatim>\<open>await\<close>, and from it on.\<close>

definition handleConvert :: "config \<Rightarrow> config" where
  "handleConvert c =
     (case c of (s, ps) \<Rightarrow>
        (if js_not (Some (amount (conversion s))) \<or> js_le (amount (conversion s)) (Fin 0)
         then (s\<lparr>error := ''Please enter a valid amount''\<rparr>, ps)
         else (s\<lparr>loading := True, error := ''''\<rparr>,
               ps @ [HandleConvert (fromCurrency (conversion s)) (toCurrency (conversion s))
                       (amount (conversion s))])))"

definition handleConvert_resume ::
  "network \<Rightarrow> string \<Rightarrow> string \<Rightarrow> jsnum \<Rightarrow> CurrencyConverter \<Rightarrow> CurrencyConverter" where
  "handleConvert_resume get from to amt s =
     (case convertCurrency get from to amt of
        Inr result \<Rightarrow>
          s\<lparr>conversion := (conversion s)
               \<lparr>CurrencyConversion.convertedAmount :=
                  Some (ConversionResult.convertedAmount result),
                CurrencyConversion.rate := Some (ConversionResult.rate result)\<rparr>\<rparr>
      | Inl err \<Rightarrow>
          s\<lparr>error := (if instanceof_Error err then message err else ''Conversion failed'')\<rparr>)
     \<lparr>loading := False\<rparr>"

definition handleFromCurrencyChange :: "string \<Rightarrow> config \<Rightarrow> config" where
  "handleFromCurrencyChange newFromCurrency c =
     (case c of (s, ps) \<Rightarrow>
        fetchCurrencies newFromCurrency
          (s\<lparr>conversion := (conversion s)\<lparr>fromCurrency := newFromCurrency\<rparr>\<rparr>, ps))"

definition handleToCurrencyChange :: "string \<Rightarrow> config \<Rightarrow> config" where
  "handleToCurrencyChange v c =
     (case c of (s, ps) \<Rightarrow> (s\<lparr>conversion := (conversion s)\<lparr>toCurrency := v\<rparr>\<rparr>, ps))"

text \<open>\<open>parsed\<close> is \<^verbatim>\<open>parseFloat(e.target.value)\<close>.\<close>

definition handleAmountChange :: "jsnum \<Rightarrow> config \<Rightarrow> config" where
  "handleAmountChange parsed c =
     (case c of (s, ps) \<Rightarrow>
        (s\<lparr>conversion := (conversion s)
              \<lparr>amount := (if js_not (Some parsed) then Fin 0 else parsed)\<rparr>\<rparr>, ps))"

definition swapCurrencies :: "config \<Rightarrow> config" where
  "swapCurrencies c =
     (case c of (s, ps) \<Rightarrow>
        fetchCurrencies (toCurrency (conversion s))
          (s\<lparr>conversion := (conversion s)
                \<lparr>fromCurrency := toCurrency (conversion s),
                 toCurrency := fromCurrency (conversion s)\<rparr>\<rparr>, ps))"

text \<open>The request of the \<open>i\<close>-th suspended call settles and the call runs to its end.\<close>

fun resume :: "network \<Rightarrow> suspended \<Rightarrow> CurrencyConverter \<Rightarrow> CurrencyConverter" where
  "resume get (FetchCurrencies baseCurrency) s = fetchCurrencies_resume get baseCurrency s"
| "resume get (HandleConvert from to amt) s = handleConvert_resume get from to amt s"

definition settle :: "nat \<Rightarrow> network \<Rightarrow> config \<Rightarrow> config" where
  "settle i get c =
     (case c of (s, ps) \<Rightarrow>
        (if i < length ps then (resume get (ps ! i) s, take i ps @ drop (Suc i) ps)
         else (s, ps)))"

text \<open>
  The component after mounting, when React runs the mount effect once, as a production
  build does: the effect has called \<^verbatim>\<open>fetchCurrencies('USD')\<close>.
\<close>

definition mounted :: config where
  "mounted = fetchCurrencies ''USD'' (initial, [])"

text \<open>
  The entry file renders the application inside \<^verbatim>\<open>React.StrictMode\<close>, under which a
  development build runs every mount effect twice, keeping the state: the effect has
  called \<^verbatim>\<open>fetchCurrencies('USD')\<close> two times and both requests are in flight.
\<close>

definition mounted_twice :: config where
  "mounted_twice = fetchCurrencies ''USD'' (fetchCurrencies ''USD'' (initial, []))"

text \<open>
  What the rendered page lets happen. Both selects, the swap button and the convert
  button carry \<^verbatim>\<open>disabled={loading}\<close>, and a select offers the entries of
  \<open>currencies\<close>; the amount field is always enabled. A request in flight settles at
  any time.
\<close>

datatype event =
  SelectFrom string | SelectTo string | TypeAmount jsnum
| ClickSwap | ClickConvert | Settle nat network

fun deliver :: "event \<Rightarrow> config \<Rightarrow> config option" where
  "deliver (SelectFrom v) (s, ps) =
     (if loading s then None else if v \<in> set (currencies s)
      then Some (handleFromCurrencyChange v (s, ps)) else None)"
| "deliver (SelectTo v) (s, ps) =
     (if loading s then None else if v \<in> set (currencies s)
      then Some (handleToCurrencyChange v (s, ps)) else None)"
| "deliver (TypeAmount parsed) (s, ps) = Some (handleAmountChange parsed (s, ps))"
| "deliver ClickSwap (s, ps) =
     (if loading s then None else Some (swapCurrencies (s, ps)))"
| "deliver ClickConvert (s, ps) =
     (if loading s then None else Some (handleConvert (s, ps)))"
| "deliver (Settle i get) (s, ps) =
     (if i < length ps then Some (settle i get (s, ps)) else None)"

fun run :: "event list \<Rightarrow> config \<Rightarrow> config option" where
  "run [] c = Some c"
| "run (e # es) c = (case deliver e c of None \<Rightarrow> None | Some c' \<Rightarrow> run es c')"


section \<open>Well-formed numbers and example data\<close>

text \<open>A \<open>jsnum\<close> that a running engine can hold: a finite one is a binary64 value.\<close>

fun wf_num :: "jsnum \<Rightarrow> bool" where
  "wf_num (Fin a) = is_binary64 a"
| "wf_num NaN = True"
| "wf_num PosInf = True"
| "wf_num NegInf = True"

text \<open>
  A network that answers every request with the same body, a body that carries a rate
  table and nothing else, and the tables and bodies the examples below are run on.
\<close>

definition serving :: "CurrencyData \<Rightarrow> network" where
  "serving d = (\<lambda>url. Resolved (Some d))"

definition body :: "rates_record \<Rightarrow> CurrencyData" where
  "body r = \<lparr>CurrencyData.base = None, CurrencyData.rates = Some r, timestamp = None,
             CurrencyData.date = None, other = []\<rparr>"

definition usd_rates :: rates_record where
  "usd_rates = [(''USD'', Fin 1), (''EUR'', round64 (9 / 10))]"

definition later_rates :: rates_record where
  "later_rates = [(''USD'', Fin 1), (''EUR'', Fin (1 / 2))]"

definition fine_rates :: rates_record where
  "fine_rates = [(''USD'', Fin 1), (''EUR'', Fin (1 / 128)), (''XXX'', Fin 0), (''YYY'', NaN)]"

definition unsupported_code :: CurrencyData where
  "unsupported_code =
     \<lparr>CurrencyData.base = None, CurrencyData.rates = None, timestamp = None,
      CurrencyData.date = None,
      other = [(''result'', ''error''), (''error-type'', ''unsupported-code'')]\<rparr>"

definition no_rates :: CurrencyData where
  "no_rates =
     \<lparr>CurrencyData.base = Some ''USD'', CurrencyData.rates = None, timestamp = None,
      CurrencyData.date = None, other = []\<rparr>"

definition eur_rates :: rates_record where
  "eur_rates = [(''EUR'', Fin 1), (''USD'', Fin (9 / 8))]"

text \<open>A network that knows the table of \<^verbatim>\<open>USD\<close> and fails on every other request.\<close>

definition elsewhere :: network where
  "elsewhere = (\<lambda>url. if url = latest_url ''USD'' then Resolved (Some (body usd_rates))
                       else Rejected ''Network Error'')"

text \<open>States of the component the examples pass through.\<close>

definition showing :: CurrencyConverter where
  "showing =
     \<lparr>conversion = \<lparr>fromCurrency = ''USD'', toCurrency = ''EUR'', amount = Fin 0,
                     CurrencyConversion.convertedAmount = Some (Fin 9),
                     CurrencyConversion.rate =
                       Some (Fin (8106479329266893 / 9007199254740992))\<rparr>,
      currencies = [''USD'', ''EUR''], loading = False, error = ''''\<rparr>"

definition after_select :: CurrencyConverter where
  "after_select =
     \<lparr>conversion = \<lparr>fromCurrency = ''EUR'', toCurrency = ''EUR'', amount = Fin 1,
                     CurrencyConversion.convertedAmount = None,
                     CurrencyConversion.rate = None\<rparr>,
      currencies = [''USD'', ''EUR''], loading = True, error = ''''\<rparr>"

definition after_swap :: CurrencyConverter where
  "after_swap =
     \<lparr>conversion = \<lparr>fromCurrency = ''EUR'', toCurrency = ''USD'', amount = Fin 10,
                     CurrencyConversion.convertedAmount = Some (Fin 9),
                     CurrencyConversion.rate =
                       Some (Fin (8106479329266893 / 9007199254740992))\<rparr>,
      currencies = [''USD'', ''EUR''], loading = True, error = ''''\<rparr>"

text \<open>
  The invariant of the page: at most one suspended call, and \<open>loading\<close> exactly while
  there is one.
\<close>

definition quiet :: "config \<Rightarrow> bool" where
  "quiet c = (case c of (s, ps) \<Rightarrow> length ps \<le> 1 \<and> loading s = (ps \<noteq> []))"


section \<open>Facts about binary64 rounding\<close>

lemma bitlen_powi_bounds:
  assumes "0 < p"
  shows "(2::rat) powi (bitlen p - 1) \<le> of_int p" and "of_int p < (2::rat) powi bitlen p"
proof -
  have b: "1 \<le> bitlen p" using assms by (simp add: bitlen_alt_def)
  from bitlen_bounds[OF assms]
  have l: "2 ^ nat (bitlen p - 1) \<le> p" and u: "p < 2 ^ nat (bitlen p)" by auto
  have "(of_int (2 ^ nat (bitlen p - 1)) :: rat) \<le> of_int p"
    using l by (simp only: of_int_le_iff)
  then show "(2::rat) powi (bitlen p - 1) \<le> of_int p"
    using b by (simp add: power_int_def)
  have "(of_int p :: rat) < of_int (2 ^ nat (bitlen p))"
    using u by (simp only: of_int_less_iff)
  then show "of_int p < (2::rat) powi bitlen p"
    using b by (simp add: power_int_def)
qed

lemma flog2_bounds:
  assumes "0 < x"
  shows "2 powi flog2 x \<le> x" and "x < 2 powi (flog2 x + 1)"
proof -
  obtain p q where pq: "quotient_of x = (p, q)" by (cases "quotient_of x")
  have q: "0 < q" using pq quotient_of_denom_pos by blast
  have x: "x = of_int p / of_int q" using pq by (simp add: quotient_of_div)
  have p: "0 < p" using assms q x by (simp add: zero_less_divide_iff)
  define k where "k = bitlen p - bitlen q"
  have f: "flog2 x = (if 2 powi k \<le> x then k else k - 1)"
    by (simp add: flog2_def pq k_def Let_def)
  have qr: "(0::rat) < of_int q" using q by simp
  have lo: "2 powi (k - 1) \<le> x"
  proof -
    have "(2::rat) powi (k - 1) * of_int q \<le> 2 powi (k - 1) * 2 powi bitlen q"
      using bitlen_powi_bounds(2)[OF q] by (simp add: mult_left_mono)
    also have "\<dots> = 2 powi (bitlen p - 1)"
      by (simp add: k_def power_int_add[symmetric])
    also have "\<dots> \<le> of_int p" by (rule bitlen_powi_bounds(1)[OF p])
    finally show ?thesis using qr by (simp add: x pos_le_divide_eq)
  qed
  have hi: "x < 2 powi (k + 1)"
  proof -
    have "(of_int p :: rat) < 2 powi bitlen p" by (rule bitlen_powi_bounds(2)[OF p])
    also have "\<dots> = 2 powi (k + 1) * 2 powi (bitlen q - 1)"
      by (simp add: k_def power_int_add[symmetric])
    also have "\<dots> \<le> 2 powi (k + 1) * of_int q"
      using bitlen_powi_bounds(1)[OF q] by (simp add: mult_left_mono)
    finally show ?thesis using qr by (simp add: x pos_divide_less_eq)
  qed
  show "2 powi flog2 x \<le> x" using f lo by (simp split: if_splits)
  show "x < 2 powi (flog2 x + 1)" using f hi by (auto split: if_splits simp: not_le)
qed

lemma flog2_eqI:
  assumes "2 powi k \<le> x" and "x < 2 powi (k + 1)"
  shows "flog2 x = k"
proof -
  have "(0::rat) < 2 powi k" by simp
  then have pos: "0 < x" using assms(1) by (rule less_le_trans)
  note b = flog2_bounds[OF pos]
  have 1: "k < flog2 x + 1"
  proof (rule ccontr)
    assume "\<not> k < flog2 x + 1"
    then have "(2::rat) powi (flog2 x + 1) \<le> 2 powi k"
      by (intro power_int_increasing) auto
    with b(2) assms(1) show False by simp
  qed
  have 2: "flog2 x < k + 1"
  proof (rule ccontr)
    assume "\<not> flog2 x < k + 1"
    then have "(2::rat) powi (k + 1) \<le> 2 powi flog2 x"
      by (intro power_int_increasing) auto
    with b(1) assms(2) show False by simp
  qed
  from 1 2 show ?thesis by simp
qed

lemma ties_even_of_int:
  assumes "of_int \<lfloor>q\<rfloor> = q"
  shows "ties_even q = \<lfloor>q\<rfloor>"
proof -
  have "q - of_int \<lfloor>q\<rfloor> = q - q" by (simp only: assms)
  then have "q - of_int \<lfloor>q\<rfloor> = 0" by simp
  then show ?thesis unfolding ties_even_def Let_def by simp
qed

lemma round64_binary64:
  assumes "is_binary64 x"
  shows "round64 x = Fin x"
proof (cases "x = 0")
  case True
  then show ?thesis by (simp add: round64_def)
next
  case False
  define q where "q = \<bar>x\<bar> / 2 powi ulp_exp \<bar>x\<bar>"
  have q: "of_int \<lfloor>q\<rfloor> = q" and lt: "\<bar>x\<bar> < 2 ^ 1024"
    using assms False by (simp_all add: is_binary64_def Let_def q_def)
  have v: "of_int (ties_even q) * 2 powi ulp_exp \<bar>x\<bar> = \<bar>x\<bar>"
    by (simp add: ties_even_of_int[OF q] q) (simp add: q_def)
  show ?thesis
    using False lt unfolding round64_def Let_def q_def[symmetric] v
    by (auto simp: not_le)
qed

text \<open>
  Rounding lands on a binary64 value, within half a unit in the last place of its
  argument; with \<open>round64_binary64\<close>, the binary64 values are exactly its finite results.
\<close>

lemma ties_even_near: "\<bar>of_int (ties_even q) - q\<bar> \<le> 1 / 2"
proof -
  define f where "f = \<lfloor>q\<rfloor>"
  have lo: "of_int f \<le> q" and hi: "q < of_int f + 1"
    unfolding f_def by linarith+
  show ?thesis
    unfolding ties_even_def Let_def f_def[symmetric]
    using lo hi by (auto simp: abs_if) 
qed

lemma ties_even_mono: "q \<le> q' \<Longrightarrow> ties_even q \<le> ties_even q'"
proof -
  assume le: "q \<le> q'"
  show ?thesis
  proof (cases "\<lfloor>q\<rfloor> = \<lfloor>q'\<rfloor>")
    case True
    then show ?thesis using le
      unfolding ties_even_def Let_def by auto
  next
    case False
    then have "\<lfloor>q\<rfloor> < \<lfloor>q'\<rfloor>" using floor_mono[OF le] by simp
    then have 1: "\<lfloor>q\<rfloor> + 1 \<le> \<lfloor>q'\<rfloor>" by simp
    have "ties_even q \<le> \<lfloor>q\<rfloor> + 1" unfolding ties_even_def Let_def by auto
    moreover have "\<lfloor>q'\<rfloor> \<le> ties_even q'" unfolding ties_even_def Let_def by auto
    ultimately show ?thesis using 1 by linarith
  qed
qed

lemma ties_even_int [simp]: "ties_even (of_int n) = n"
  by (simp add: ties_even_def)


lemma ties_even_numeral [simp]: "ties_even (numeral w) = numeral w"
  using ties_even_int[of "numeral w"] by simp

lemma ties_even_nonneg: "0 \<le> q \<Longrightarrow> 0 \<le> ties_even q"
  using ties_even_mono[of 0 q] ties_even_int[of 0] by simp

lemma flog2_less:
  assumes "0 < x" and "x < 2 powi m"
  shows "flog2 x < m"
proof (rule ccontr)
  assume "\<not> flog2 x < m"
  then have "(2::rat) powi m \<le> 2 powi flog2 x"
    by (intro power_int_increasing) auto
  with flog2_bounds(1)[OF assms(1)] assms(2) show False by simp
qed

lemma round64_near:
  assumes "round64 x = Fin y"
  shows "\<bar>y - x\<bar> \<le> 2 powi ulp_exp \<bar>x\<bar> / 2"
proof (cases "x = 0")
  case True
  then show ?thesis using assms by (simp add: round64_def)
next
  case False
  define P :: rat where "P = 2 powi ulp_exp \<bar>x\<bar>"
  define n where "n = ties_even (\<bar>x\<bar> / P)"
  have P: "0 < P" by (simp add: P_def)
  have y: "y = (if x < 0 then - (of_int n * P) else of_int n * P)"
    using assms False by (simp add: round64_def Let_def P_def n_def split: if_splits)
  have "\<bar>of_int n - \<bar>x\<bar> / P\<bar> \<le> 1 / 2" unfolding n_def by (rule ties_even_near)
  then have "\<bar>of_int n - \<bar>x\<bar> / P\<bar> * P \<le> (1 / 2) * P"
    using P by (simp add: mult_right_mono)
  moreover have "\<bar>of_int n - \<bar>x\<bar> / P\<bar> * P = \<bar>of_int n * P - \<bar>x\<bar>\<bar>"
  proof -
    have "\<bar>of_int n - \<bar>x\<bar> / P\<bar> * P = \<bar>(of_int n - \<bar>x\<bar> / P) * P\<bar>"
      using P by (simp add: abs_mult)
    also have "(of_int n - \<bar>x\<bar> / P) * P = of_int n * P - \<bar>x\<bar>"
      using P by (simp add: left_diff_distrib)
    finally show ?thesis .
  qed
  ultimately have m: "\<bar>of_int n * P - \<bar>x\<bar>\<bar> \<le> P / 2" by simp
  have "\<bar>y - x\<bar> = \<bar>of_int n * P - \<bar>x\<bar>\<bar>"
  proof (cases "x < 0")
    case True
    then have "y - x = - (of_int n * P - \<bar>x\<bar>)" by (simp add: y)
    then show ?thesis by (simp only: abs_minus_cancel)
  next
    case False
    then show ?thesis by (simp add: y)
  qed
  then show ?thesis using m by (simp add: P_def)
qed

lemma round64_range:
  assumes "round64 x = Fin y"
  shows "is_binary64 y"
proof (cases "x = 0")
  case True
  then show ?thesis using assms by (simp add: round64_def is_binary64_def)
next
  case False
  define a where "a = \<bar>x\<bar>"
  define k where "k = flog2 a"
  define e where "e = ulp_exp a"
  define n where "n = ties_even (a / 2 powi e)"
  define v :: rat where "v = of_int n * 2 powi e"
  have a: "0 < a" using False by (simp add: a_def)
  have kb: "2 powi k \<le> a" "a < 2 powi (k + 1)"
    unfolding k_def using flog2_bounds[OF a] by simp_all
  have e: "e = max (k - 52) (- 1074)" by (simp add: e_def ulp_exp_def k_def)
  have P: "(0::rat) < 2 powi e" by simp
  have n0: "0 \<le> n" unfolding n_def using a P by (intro ties_even_nonneg) simp
  have v0: "0 \<le> v" unfolding v_def using n0 P by simp
  have fin: "v < 2 ^ 1024" and y: "y = (if x < 0 then - v else v)"
    using assms False
    by (simp_all add: round64_def Let_def a_def[symmetric] e_def[symmetric]
          n_def[symmetric] v_def[symmetric] split: if_splits)
  have ay: "\<bar>y\<bar> = v" using y v0 by simp
  show ?thesis
  proof (cases "n = 0")
    case True
    then show ?thesis using y by (simp add: v_def is_binary64_def)
  next
    case nz: False
    then have n1: "1 \<le> n" using n0 by simp
    have vpos: "0 < v" unfolding v_def using n1 P by simp
    have key: "\<exists>m. v = of_int m * 2 powi ulp_exp v"
    proof (cases "- 1074 \<le> k - 52")
      case True
      then have ek: "e = k - 52" using e by simp
      have pk: "(2::rat) powi k = 2 ^ 52 * 2 powi e"
        unfolding ek by (simp add: power_int_diff)
      have pk1: "(2::rat) powi (k + 1) = 2 ^ 53 * 2 powi e"
        unfolding ek by (simp add: power_int_diff power_int_add)
      have "of_int (2 ^ 52) \<le> a / 2 powi e"
        using kb(1) P by (simp add: pk pos_le_divide_eq)
      from ties_even_mono[OF this] have nlo: "2 ^ 52 \<le> n" by (simp add: n_def)
      have "a / 2 powi e \<le> of_int (2 ^ 53)"
        using kb(2) P by (simp add: pk1 pos_divide_le_eq)
      from ties_even_mono[OF this] have nhi: "n \<le> 2 ^ 53" by (simp add: n_def)
      show ?thesis
      proof (cases "n = 2 ^ 53")
        case True
        then have v: "v = 2 powi (k + 1)" by (simp add: v_def pk1)
        have "flog2 v = k + 1"
          by (rule flog2_eqI) (simp_all add: v power_int_add)
        then have "ulp_exp v = e + 1" using \<open>- 1074 \<le> k - 52\<close>
          by (simp add: ulp_exp_def ek)
        moreover have "v = of_int (2 ^ 52) * 2 powi (e + 1)"
          by (simp add: v pk1 power_int_add)
        ultimately show ?thesis by metis
      next
        case False
        then have "n < 2 ^ 53" using nhi by simp
        then have "(of_int n :: rat) < of_int (2 ^ 53)" by (simp only: of_int_less_iff)
        then have "v < 2 powi (k + 1)"
          unfolding v_def pk1 using P by simp
        moreover have "(of_int (2 ^ 52) :: rat) \<le> of_int n" using nlo by (simp only: of_int_le_iff)
        then have "2 powi k \<le> v"
          unfolding v_def pk using P by simp
        ultimately have "flog2 v = k" by (intro flog2_eqI)
        then have "ulp_exp v = e" by (simp add: ulp_exp_def e)
        then show ?thesis using v_def by metis
      qed
    next
      case False
      then have ek: "e = - 1074" and k1: "k + 1 \<le> - 1022" using e by simp_all
      have "(2::rat) powi (k + 1) \<le> 2 powi (- 1022)"
        using k1 by (intro power_int_increasing) simp_all
      then have a_lt: "a < 2 powi (- 1022)" using kb(2) by simp
      have sp: "(2::rat) powi (- 1022) = of_int (2 ^ 52) * 2 powi e"
        unfolding ek by (simp add: power_int_minus_divide)
      have "a < of_int (2 ^ 52) * 2 powi e" using a_lt by (simp only: sp)
      then have "a / 2 powi e \<le> of_int (2 ^ 52)"
        using P by (simp only: pos_divide_le_eq[OF P] less_imp_le)
      from ties_even_mono[OF this] have nhi: "n \<le> 2 ^ 52"
        by (simp only: n_def ties_even_int)
      then have "(of_int n :: rat) \<le> of_int (2 ^ 52)" by (simp only: of_int_le_iff)
      then have "(of_int n :: rat) * 2 powi e \<le> of_int (2 ^ 52) * 2 powi e"
        by (rule mult_right_mono) (rule less_imp_le[OF P])
      then have "v \<le> 2 powi (- 1022)"
        by (simp only: v_def sp)
      also have "\<dots> < 2 powi (- 1021)"
        by (intro power_int_strict_increasing) simp_all
      finally have "flog2 v < - 1021" using vpos by (intro flog2_less)
      then have "ulp_exp v = e" by (simp add: ulp_exp_def ek)
      then show ?thesis using v_def by metis
    qed
    then obtain m where m: "v = of_int m * 2 powi ulp_exp v" by blast
    have "v / 2 powi ulp_exp v = of_int m"
    proof -
      have "v / 2 powi ulp_exp v = of_int m * 2 powi ulp_exp v / 2 powi ulp_exp v"
        using m by simp
      then show ?thesis by simp
    qed
    then have "of_int \<lfloor>v / 2 powi ulp_exp v\<rfloor> = v / 2 powi ulp_exp v" by simp
    then show ?thesis
      using fin by (simp add: is_binary64_def ay Let_def)
  qed
qed

text \<open>Once the binade of a concrete value is named, rounding it is plain arithmetic.\<close>

lemma ulp_exp_eqI:
  "2 powi k \<le> a \<Longrightarrow> a < 2 powi (k + 1) \<Longrightarrow> ulp_exp a = max (k - 52) (- 1074)"
  by (simp add: ulp_exp_def flog2_eqI)

lemma round64_eval:
  assumes "2 powi k \<le> \<bar>x\<bar>" and "\<bar>x\<bar> < 2 powi (k + 1)"
  shows "round64 x =
     (let e = max (k - 52) (- 1074);
          v = of_int (ties_even (\<bar>x\<bar> / 2 powi e)) * 2 powi e
      in if 2 ^ 1024 \<le> v then (if x < 0 then NegInf else PosInf)
         else Fin (if x < 0 then - v else v))"
proof -
  have "(0::rat) < 2 powi k" by simp
  then have "0 < \<bar>x\<bar>" using assms(1) by (rule less_le_trans)
  then have nz: "x \<noteq> 0" by simp
  show ?thesis
    unfolding round64_def Let_def ulp_exp_eqI[OF assms] using nz by simp
qed

lemma is_binary64_eval:
  assumes "2 powi k \<le> \<bar>x\<bar>" and "\<bar>x\<bar> < 2 powi (k + 1)"
  shows "is_binary64 x =
     (let q = \<bar>x\<bar> / 2 powi (max (k - 52) (- 1074))
      in of_int \<lfloor>q\<rfloor> = q \<and> \<bar>x\<bar> < 2 ^ 1024)"
proof -
  have "(0::rat) < 2 powi k" by simp
  then have "0 < \<bar>x\<bar>" using assms(1) by (rule less_le_trans)
  then have nz: "x \<noteq> 0" by simp
  show ?thesis
    unfolding is_binary64_def Let_def ulp_exp_eqI[OF assms] using nz by simp
qed

lemma floor_rat_numeral_divide:
  "\<lfloor>(numeral a :: rat) / numeral b\<rfloor> = numeral a div numeral b"
  using floor_divide_of_int_eq[of "numeral a" "numeral b", where ?'a = rat] by simp

lemma floor_rat_one_divide:
  "\<lfloor>(1 :: rat) / numeral b\<rfloor> = 1 div numeral b"
  using floor_divide_of_int_eq[of 1 "numeral b", where ?'a = rat] by simp

lemmas round64_simps = Let_def ties_even_def floor_rat_numeral_divide floor_rat_one_divide


section \<open>The converter on a fetched table\<close>

lemma getExchangeRates_resolved:
  assumes "get (latest_url from) = Resolved (Some d)" and "CurrencyData.rates d = Some r"
  shows "getExchangeRates get from =
           Inr \<lparr>ExchangeRates.rates = r, ExchangeRates.base = CurrencyData.base d,
                ExchangeRates.date = CurrencyData.date d\<rparr>"
  using assms by (simp add: getExchangeRates_def getExchangeRates_try_def)

lemma convertCurrency_resolved:
  assumes "get (latest_url from) = Resolved (Some d)" and "CurrencyData.rates d = Some r"
  shows "convertCurrency get from to amt =
           (case map_of r to of
              None \<Rightarrow>
                if to \<in> set Object_prototype
                then Inl (TypeError ''rate.toFixed is not a function'')
                else Inl (Error (''Exchange rate not available for '' @ to))
            | Some v \<Rightarrow>
                if js_not (Some v)
                then Inl (Error (''Exchange rate not available for '' @ to))
                else Inr \<lparr>ConversionResult.convertedAmount = Number (toFixed (js_times amt v) 4),
                         ConversionResult.rate = Number (toFixed v 6)\<rparr>)"
  using getExchangeRates_resolved[of get "from" d r, OF assms]
  by (simp add: convertCurrency_def js_get_def Let_def split: option.splits)

text \<open>
  A currency code has three letters; the names of the inherited members are longer.
  For a target that is one of those names and not a key of the table, the read finds
  the inherited member, the guard lets it pass, and the call ends in the
  \<^verbatim>\<open>TypeError\<close>.
\<close>

lemma three_letters_not_inherited: "length c = 3 \<Longrightarrow> c \<notin> set Object_prototype"
  by (auto simp: Object_prototype_def)

lemma convertCurrency_inherited_target:
  assumes "get (latest_url from) = Resolved (Some d)" and "CurrencyData.rates d = Some r"
    and "to \<notin> set (Object_keys r)" and "to \<in> set Object_prototype"
  shows "convertCurrency get from to amt = Inl (TypeError ''rate.toFixed is not a function'')"
proof -
  have "map_of r to = None"
    using assms(3) by (simp add: Object_keys_def map_of_eq_None_iff)
  then show ?thesis
    using convertCurrency_resolved[of get "from" d r to amt, OF assms(1,2)] assms(4) by simp
qed

lemma round64_nine_tenths: "round64 (9 / 10) = Fin (8106479329266893 / 9007199254740992)"
  by (simp add: round64_eval[of "-1"] round64_simps)

lemma round64_1: "round64 1 = Fin 1"
  by (simp add: round64_eval[of 0] round64_simps)

lemma round64_9: "round64 9 = Fin 9"
  by (simp add: round64_eval[of 3] round64_simps)

lemma times_10_nine_tenths: "js_times (Fin 10) (Fin (8106479329266893 / 9007199254740992)) = Fin 9"
  by (simp add: round64_eval[of 3] round64_simps)

lemma toFixed_9: "Number (toFixed (Fin 9) 4) = Fin 9"
  by (simp add: floor_rat_numeral_divide round64_9)

lemma toFixed_nine_tenths:
  "Number (toFixed (Fin (8106479329266893 / 9007199254740992)) 6) = Fin (8106479329266893 / 9007199254740992)"
  by (simp add: floor_rat_numeral_divide round64_nine_tenths)

lemma js_times_one: "wf_num x \<Longrightarrow> js_times x (Fin 1) = x"
  by (cases x) (simp_all add: round64_binary64)

lemma toFixed_one: "Number (toFixed (Fin 1) 6) = Fin 1"
  by (simp add: floor_rat_numeral_divide round64_1)

lemma toFixed_two: "Number (toFixed (Fin 2) 6) = Fin 2"
  by (simp add: floor_rat_numeral_divide round64_eval[of 1] round64_simps)

lemma toFixed_zero: "Number (toFixed (Fin 0) 4) = Fin 0"
  by (simp add: floor_rat_one_divide round64_def)

lemma toFixed_close: "\<bar>decimal_value (toFixed (Fin a) f) - a\<bar> \<le> 1 / (2 * 10 ^ f)"
proof (cases "10 ^ 21 \<le> \<bar>a\<bar>")
  case True
  then show ?thesis by (simp add: Let_def abs_if)
next
  case False
  define n where "n = \<lfloor>\<bar>a\<bar> * 10 ^ f + 1 / 2\<rfloor>"
  have p: "(0::rat) < 10 ^ f" by simp
  have lo: "of_int n \<le> \<bar>a\<bar> * 10 ^ f + 1 / 2" unfolding n_def by (rule of_int_floor_le)
  have hi: "\<bar>a\<bar> * 10 ^ f + 1 / 2 < of_int n + 1" unfolding n_def by linarith
  have h: "\<bar>of_int n - \<bar>a\<bar> * 10 ^ f\<bar> \<le> 1 / 2" using lo hi by linarith
  have "\<bar>of_int n - \<bar>a\<bar> * 10 ^ f\<bar> / 10 ^ f \<le> (1 / 2) / 10 ^ f"
    by (rule divide_right_mono[OF h]) simp
  moreover have "\<bar>of_int n - \<bar>a\<bar> * 10 ^ f\<bar> / 10 ^ f = \<bar>of_int n / 10 ^ f - \<bar>a\<bar>\<bar>"
  proof -
    have "\<bar>of_int n - \<bar>a\<bar> * 10 ^ f\<bar> / 10 ^ f = \<bar>(of_int n - \<bar>a\<bar> * 10 ^ f) / 10 ^ f\<bar>"
      by simp
    also have "(of_int n - \<bar>a\<bar> * 10 ^ f) / 10 ^ f = of_int n / 10 ^ f - \<bar>a\<bar>"
      by (simp add: diff_divide_distrib)
    finally show ?thesis .
  qed
  ultimately have m: "\<bar>of_int n / 10 ^ f - \<bar>a\<bar>\<bar> \<le> 1 / (2 * 10 ^ f)" by simp
  show ?thesis
  proof (cases "a < 0")
    case True
    have "\<bar>- of_int n / 10 ^ f - a\<bar> = \<bar>of_int n / 10 ^ f - \<bar>a\<bar>\<bar>"
      using True by (simp add: abs_if)
    then show ?thesis using m False True by (simp add: Let_def n_def)
  next
    case neg: False
    then have "\<bar>a\<bar> = a" by simp
    then show ?thesis using m False neg by (simp add: Let_def n_def)
  qed
qed

lemma getExchangeRates_rejected:
  "get (latest_url b) = Rejected m \<Longrightarrow>
   getExchangeRates get b = Inl (Error (''Failed to fetch exchange rates: '' @ m))"
  by (simp add: getExchangeRates_def getExchangeRates_try_def)

lemma getExchangeRates_no_data:
  "get (latest_url b) = Resolved None \<Longrightarrow>
   getExchangeRates get b = Inl (Error ''Failed to fetch exchange rates'')"
  by (simp add: getExchangeRates_def getExchangeRates_try_def)

lemma getExchangeRates_no_rates:
  "get (latest_url b) = Resolved (Some d) \<Longrightarrow> CurrencyData.rates d = None \<Longrightarrow>
   getExchangeRates get b = Inl (Error ''Failed to fetch exchange rates'')"
  by (simp add: getExchangeRates_def getExchangeRates_try_def)

lemma getExchangeRates_other:
  "getExchangeRates (serving (d\<lparr>other := x\<rparr>)) b = getExchangeRates (serving d) b"
  by (simp add: getExchangeRates_def getExchangeRates_try_def serving_def
        split: option.splits)

lemma half_eval: "Number (toFixed (Fin (1 / 2)) 6) = Fin (1 / 2)"
  by (simp add: round64_eval[of "-1"] round64_simps)

lemma five_eval: "Number (toFixed (js_times (Fin 10) (Fin (1 / 2))) 4) = Fin 5"
  by (simp add: round64_eval[of 2] round64_simps)


section \<open>The component on the page\<close>

lemma loading_fetchCurrencies_resume [simp]:
  "loading (fetchCurrencies_resume get b s) = False"
  by (simp add: fetchCurrencies_resume_def split: sum.splits)

lemma loading_handleConvert_resume [simp]:
  "loading (handleConvert_resume get f t a s) = False"
  by (simp add: handleConvert_resume_def split: sum.splits)

lemma loading_resume [simp]: "loading (resume get p s) = False"
  by (cases p) simp_all

lemma quiet_mounted: "quiet mounted"
  by (simp add: quiet_def mounted_def fetchCurrencies_def)

lemma quiet_deliver:
  assumes "quiet c" and "deliver e c = Some c'"
  shows "quiet c'"
proof -
  obtain s ps where c: "c = (s, ps)" by (cases c)
  have q: "length ps \<le> 1" "loading s = (ps \<noteq> [])"
    using assms(1) by (simp_all add: quiet_def c)
  show ?thesis
  proof (cases e)
    case (SelectFrom v)
    then show ?thesis using assms(2) q
      by (auto simp: c quiet_def handleFromCurrencyChange_def fetchCurrencies_def
            split: if_splits)
  next
    case (SelectTo v)
    then show ?thesis using assms(2) q
      by (auto simp: c quiet_def handleToCurrencyChange_def split: if_splits)
  next
    case (TypeAmount parsed)
    then show ?thesis using assms(2) q
      by (auto simp: c quiet_def handleAmountChange_def)
  next
    case ClickSwap
    then show ?thesis using assms(2) q
      by (auto simp: c quiet_def swapCurrencies_def fetchCurrencies_def split: if_splits)
  next
    case ClickConvert
    then show ?thesis using assms(2) q
      by (auto simp: c quiet_def handleConvert_def split: if_splits)
  next
    case (Settle i get)
    then have i: "i < length ps" and c': "c' = settle i get (s, ps)"
      using assms(2) by (auto simp: c split: if_splits)
    from i q(1) have "i = 0" "length ps = 1" by simp_all
    then obtain p where "ps = [p]" by (cases ps) simp_all
    then show ?thesis using c' \<open>i = 0\<close> by (simp add: quiet_def settle_def)
  qed
qed

lemma quiet_run: "quiet c \<Longrightarrow> run es c = Some c' \<Longrightarrow> quiet c'"
proof (induction es arbitrary: c)
  case Nil
  then show ?case by simp
next
  case (Cons e es)
  then obtain c1 where d: "deliver e c = Some c1" and r: "run es c1 = Some c'"
    by (auto split: option.splits)
  from quiet_deliver[OF Cons.prems(1) d] r show ?case by (rule Cons.IH)
qed

lemma settle_fetch_resolved:
  assumes "get (latest_url b) = Resolved (Some d)" and "CurrencyData.rates d = Some r"
  shows "settle 0 get (s, [FetchCurrencies b]) = (s\<lparr>currencies := Object_keys r, loading := False\<rparr>, [])"
  using getExchangeRates_resolved[of get b d r, OF assms]
  by (simp add: settle_def fetchCurrencies_resume_def)

lemma run_select:
  "run [Settle 0 (serving (body usd_rates)), SelectFrom ''EUR''] mounted =
     Some (after_select, [FetchCurrencies ''EUR''])"
  by (simp add: mounted_def initial_def fetchCurrencies_def settle_def
        fetchCurrencies_resume_def getExchangeRates_def getExchangeRates_try_def
        serving_def body_def usd_rates_def Object_keys_def handleFromCurrencyChange_def
        after_select_def)


section \<open>The claims about the converter\<close>

text \<open>
  Claim C1. When the provider answers the request for \<^verbatim>\<open>USD\<close> with the rates
  \<^verbatim>\<open>{"USD": 1, "EUR": 0.9}\<close>, converting 10 from \<^verbatim>\<open>USD\<close> to \<^verbatim>\<open>EUR\<close> returns the
  converted amount 9 and the rate 0.9, where 0.9 is the binary64 value the JSON
  number \<^verbatim>\<open>0.9\<close> parses to.
\<close>

theorem convertCurrency_usd_eur_10:
  assumes "get (latest_url ''USD'') = Resolved (Some d)"
    and "CurrencyData.rates d = Some [(''USD'', Fin 1), (''EUR'', round64 (9 / 10))]"
  shows "convertCurrency get ''USD'' ''EUR'' (Fin 10) =
           Inr \<lparr>ConversionResult.convertedAmount = Fin 9,
                ConversionResult.rate = round64 (9 / 10)\<rparr>"
  using convertCurrency_resolved[of get "''USD''" d _ "''EUR''" "Fin 10", OF assms]
  by (simp add: round64_nine_tenths times_10_nine_tenths toFixed_9 toFixed_nine_tenths
        del: toFixed.simps Number.simps js_times.simps)

theorem convertCurrency_usd_eur_10_witness:
  "serving (body usd_rates) (latest_url ''USD'') = Resolved (Some (body usd_rates))
   \<and> CurrencyData.rates (body usd_rates) =
       Some [(''USD'', Fin 1), (''EUR'', round64 (9 / 10))]
   \<and> convertCurrency (serving (body usd_rates)) ''USD'' ''EUR'' (Fin 10) =
       Inr \<lparr>ConversionResult.convertedAmount = Fin 9,
            ConversionResult.rate = Fin (8106479329266893 / 9007199254740992)\<rparr>"
  using convertCurrency_usd_eur_10[of "serving (body usd_rates)" "body usd_rates"]
  by (simp add: serving_def body_def usd_rates_def round64_nine_tenths)

text \<open>
  Claim C2. For every fetched rate table and every target currency that is not one of
  its keys, \<open>convertCurrency\<close> returns no result: it throws the error whose message is
  \<^verbatim>\<open>Exchange rate not available for\<close> followed by the missing code, whatever the
  source currency and the amount. The target is a currency code: it is not the name of
  a member that every object inherits, which no three-letter code is.
\<close>

theorem convertCurrency_missing_target:
  assumes "get (latest_url from) = Resolved (Some d)"
    and "CurrencyData.rates d = Some r"
    and "to \<notin> set (Object_keys r)"
    and "to \<notin> set Object_prototype"
  shows "convertCurrency get from to amt =
           Inl (Error (''Exchange rate not available for '' @ to))"
proof -
  have "map_of r to = None"
    using assms(3) by (simp add: Object_keys_def map_of_eq_None_iff)
  then show ?thesis
    using convertCurrency_resolved[of get "from" d r to amt, OF assms(1,2)] assms(4) by simp
qed

theorem convertCurrency_missing_target_witness:
  "serving (body usd_rates) (latest_url ''USD'') = Resolved (Some (body usd_rates))
   \<and> CurrencyData.rates (body usd_rates) = Some usd_rates
   \<and> ''XYZ'' \<notin> set (Object_keys usd_rates)
   \<and> ''XYZ'' \<notin> set Object_prototype
   \<and> convertCurrency (serving (body usd_rates)) ''USD'' ''XYZ'' (Fin 10) =
       Inl (Error ''Exchange rate not available for XYZ'')"
  using convertCurrency_missing_target[of "serving (body usd_rates)" "''USD''"
      "body usd_rates" usd_rates "''XYZ''" "Fin 10"]
  by (simp add: serving_def body_def usd_rates_def Object_keys_def Object_prototype_def)

text \<open>
  Claim C9. When the key of the target currency is in the fetched table but its rate
  is 0 or NaN, \<open>convertCurrency\<close> throws the same \<^verbatim>\<open>Exchange rate not available\<close>
  error: the guard fires on a falsy rate, not only on a missing key. For a target that
  is a currency code, not the name of an inherited member, the outcome is the one it
  would have on the table with that key taken out.
\<close>

theorem convertCurrency_falsy_rate:
  assumes "get (latest_url from) = Resolved (Some d)"
    and "CurrencyData.rates d = Some r"
    and "map_of r to = Some v"
    and "v = Fin 0 \<or> v = NaN"
  shows "convertCurrency get from to amt =
           Inl (Error (''Exchange rate not available for '' @ to))
         \<and> (to \<notin> set Object_prototype \<longrightarrow>
             convertCurrency get from to amt =
             convertCurrency
               (serving (d\<lparr>CurrencyData.rates := Some (filter (\<lambda>kv. fst kv \<noteq> to) r)\<rparr>))
               from to amt)"
proof -
  have 1: "convertCurrency get from to amt =
           Inl (Error (''Exchange rate not available for '' @ to))"
    using convertCurrency_resolved[of get "from" d r to amt, OF assms(1,2)] assms(3,4)
    by auto
  let ?r = "filter (\<lambda>kv. fst kv \<noteq> to) r"
  let ?d = "d\<lparr>CurrencyData.rates := Some ?r\<rparr>"
  have "map_of ?r to = None" by (auto simp: map_of_eq_None_iff)
  then have 2: "convertCurrency (serving ?d) from to amt =
           Inl (Error (''Exchange rate not available for '' @ to))"
    if "to \<notin> set Object_prototype"
    using convertCurrency_resolved[of "serving ?d" "from" ?d ?r to amt] that
    by (simp add: serving_def)
  from 1 2 show ?thesis by simp
qed

theorem convertCurrency_falsy_rate_witness:
  "convertCurrency (serving (body fine_rates)) ''USD'' ''XXX'' (Fin 10) =
     Inl (Error ''Exchange rate not available for XXX'')
   \<and> convertCurrency (serving (body fine_rates)) ''USD'' ''XXX'' (Fin 10) =
     convertCurrency
       (serving ((body fine_rates)
          \<lparr>CurrencyData.rates := Some (filter (\<lambda>kv. fst kv \<noteq> ''XXX'') fine_rates)\<rparr>))
       ''USD'' ''XXX'' (Fin 10)
   \<and> convertCurrency (serving (body fine_rates)) ''USD'' ''YYY'' (Fin 10) =
     Inl (Error ''Exchange rate not available for YYY'')
   \<and> map_of fine_rates ''XXX'' = Some (Fin 0) \<and> map_of fine_rates ''YYY'' = Some NaN
   \<and> ''XXX'' \<notin> set Object_prototype"
proof -
  have b: "serving (body fine_rates) (latest_url ''USD'') = Resolved (Some (body fine_rates))"
    and r: "CurrencyData.rates (body fine_rates) = Some fine_rates"
    and x: "map_of fine_rates ''XXX'' = Some (Fin 0)"
    and y: "map_of fine_rates ''YYY'' = Some NaN"
    and p: "''XXX'' \<notin> set Object_prototype"
    by (simp_all add: serving_def body_def fine_rates_def Object_prototype_def)
  have f: "Fin 0 = Fin 0 \<or> Fin 0 = NaN" and g: "NaN = Fin 0 \<or> NaN = NaN" by simp_all
  note X = convertCurrency_falsy_rate[of "serving (body fine_rates)" "''USD''"
        "body fine_rates" fine_rates "''XXX''" "Fin 0" "Fin 10", OF b r x f]
  note Y = convertCurrency_falsy_rate[of "serving (body fine_rates)" "''USD''"
        "body fine_rates" fine_rates "''YYY''" NaN "Fin 10", OF b r y g]
  note X1 = X[THEN conjunct1, simplified] and X2 = X[THEN conjunct2, rule_format, OF p]
    and Y1 = Y[THEN conjunct1, simplified]
  from X1 X2 Y1 x y p show ?thesis by blast
qed

text \<open>
  Claim C4. For every fetched table in which the currency \<open>c\<close> has the rate 1 and every
  amount that is not negative, converting from \<open>c\<close> to \<open>c\<close> returns the rate 1 and, as
  converted amount, the amount as \<^verbatim>\<open>toFixed(4)\<close> prints it, read back as a number; the
  decimal printed is within half a unit of the fourth decimal place of the amount.
\<close>

theorem convertCurrency_same_currency:
  assumes "get (latest_url c) = Resolved (Some d)"
    and "CurrencyData.rates d = Some r"
    and "map_of r c = Some (Fin 1)"
    and "wf_num amt" and "js_le (Fin 0) amt"
  shows "convertCurrency get c c amt =
           Inr \<lparr>ConversionResult.convertedAmount = Number (toFixed amt 4),
                ConversionResult.rate = Fin 1\<rparr>
         \<and> (\<forall>a. amt = Fin a \<longrightarrow> \<bar>decimal_value (toFixed amt 4) - a\<bar> \<le> 1 / 20000)"
proof -
  have "convertCurrency get c c amt =
           Inr \<lparr>ConversionResult.convertedAmount = Number (toFixed amt 4),
                ConversionResult.rate = Fin 1\<rparr>"
    using convertCurrency_resolved[of get c d r c amt, OF assms(1,2)] assms(3)
      js_times_one[OF assms(4)] toFixed_one
    by (simp del: toFixed.simps Number.simps js_times.simps)
  moreover have "\<bar>decimal_value (toFixed amt 4) - a\<bar> \<le> 1 / 20000" if "amt = Fin a" for a
    using toFixed_close[of a 4] that by (simp del: toFixed.simps)
  ultimately show ?thesis by blast
qed

theorem convertCurrency_same_currency_witness:
  "convertCurrency (serving (body usd_rates)) ''USD'' ''USD'' (Fin (5 / 8)) =
     Inr \<lparr>ConversionResult.convertedAmount = Fin (5 / 8), ConversionResult.rate = Fin 1\<rparr>
   \<and> map_of usd_rates ''USD'' = Some (Fin 1) \<and> wf_num (Fin (5 / 8))
   \<and> js_le (Fin 0) (Fin (5 / 8))"
proof -
  have w: "wf_num (Fin (5 / 8))"
    by (simp add: is_binary64_eval[of "-1"] round64_simps)
  have n: "Number (toFixed (Fin (5 / 8)) 4) = Fin (5 / 8)"
    by (simp add: round64_eval[of "-1"] round64_simps)
  show ?thesis
    using convertCurrency_same_currency[of "serving (body usd_rates)" "''USD''"
        "body usd_rates" usd_rates "Fin (5 / 8)"] w n
    by (simp add: serving_def body_def usd_rates_def del: toFixed.simps Number.simps wf_num.simps)
qed

text \<open>
  Claim C5. For every fetched table whose rate for the target currency is a finite
  number other than zero, as every rate of a rate table is, converting the amount 0
  succeeds with the converted amount 0, and the rate returned is the table's rate for
  the target, rounded to six decimal places as the returned rate always is
  (\<^verbatim>\<open>Number(rate.toFixed(6))\<close>). For the \<^verbatim>\<open>USD\<close> table with the \<^verbatim>\<open>EUR\<close> rate 0.9 the
  result is 0 and 0.9.
\<close>

theorem convertCurrency_zero_amount:
  assumes "get (latest_url from) = Resolved (Some d)"
    and "CurrencyData.rates d = Some r"
    and "map_of r to = Some (Fin v)" and "v \<noteq> 0"
  shows "convertCurrency get from to (Fin 0) =
           Inr \<lparr>ConversionResult.convertedAmount = Fin 0,
                ConversionResult.rate = Number (toFixed (Fin v) 6)\<rparr>"
proof -
  have "js_times (Fin 0) (Fin v) = Fin 0" by (simp add: round64_def)
  then show ?thesis
    using convertCurrency_resolved[of get "from" d r to "Fin 0", OF assms(1,2)] assms(3,4)
      toFixed_zero
    by (simp del: toFixed.simps Number.simps js_times.simps)
qed

theorem convertCurrency_zero_amount_witness:
  "serving (body usd_rates) (latest_url ''USD'') = Resolved (Some (body usd_rates))
   \<and> CurrencyData.rates (body usd_rates) = Some usd_rates
   \<and> map_of usd_rates ''EUR'' = Some (round64 (9 / 10))
   \<and> round64 (9 / 10) = Fin (8106479329266893 / 9007199254740992)
   \<and> (8106479329266893 / 9007199254740992 :: rat) \<noteq> 0
   \<and> convertCurrency (serving (body usd_rates)) ''USD'' ''EUR'' (Fin 0) =
       Inr \<lparr>ConversionResult.convertedAmount = Fin 0,
            ConversionResult.rate = round64 (9 / 10)\<rparr>"
proof -
  have b: "serving (body usd_rates) (latest_url ''USD'') = Resolved (Some (body usd_rates))"
    and r: "CurrencyData.rates (body usd_rates) = Some usd_rates"
    and m: "map_of usd_rates ''EUR'' = Some (Fin (8106479329266893 / 9007199254740992))"
    and n: "(8106479329266893 / 9007199254740992 :: rat) \<noteq> 0"
    by (simp_all add: serving_def body_def usd_rates_def round64_nine_tenths)
  show ?thesis
    using convertCurrency_zero_amount[of "serving (body usd_rates)" "''USD''"
        "body usd_rates" usd_rates "''EUR''" "8106479329266893 / 9007199254740992",
        OF b r m n] b r m toFixed_nine_tenths
    by (simp add: round64_nine_tenths del: toFixed.simps Number.simps)
qed

text \<open>
  Claim C8, amended. \<open>convertCurrency\<close> is not a pure function of its three arguments:
  it reads the answer of the rate provider to the request for the table of the source
  currency, and for every choice of the arguments two answers give two different
  outcomes. It is deterministic in its arguments together with that answer: two
  networks that answer the request for the source currency alike give the same
  outcome, whatever they answer elsewhere.
\<close>

theorem convertCurrency_reads_one_response:
  "(get (latest_url from) = get' (latest_url from) \<longrightarrow>
      convertCurrency get from to amt = convertCurrency get' from to amt)
   \<and> convertCurrency (serving (body [(to, Fin 1)])) from to amt \<noteq>
     convertCurrency (serving (body [(to, Fin 2)])) from to amt"
proof (intro conjI impI)
  assume "get (latest_url from) = get' (latest_url from)"
  then show "convertCurrency get from to amt = convertCurrency get' from to amt"
    by (simp add: convertCurrency_def getExchangeRates_def getExchangeRates_try_def)
next
  have 1: "convertCurrency (serving (body [(to, Fin 1)])) from to amt =
      Inr \<lparr>ConversionResult.convertedAmount = Number (toFixed (js_times amt (Fin 1)) 4),
           ConversionResult.rate = Fin 1\<rparr>"
    using convertCurrency_resolved[of "serving (body [(to, Fin 1)])" "from"
        "body [(to, Fin 1)]" "[(to, Fin 1)]" to amt] toFixed_one
    by (simp add: serving_def body_def del: toFixed.simps Number.simps js_times.simps)
  have 2: "convertCurrency (serving (body [(to, Fin 2)])) from to amt =
      Inr \<lparr>ConversionResult.convertedAmount = Number (toFixed (js_times amt (Fin 2)) 4),
           ConversionResult.rate = Fin 2\<rparr>"
    using convertCurrency_resolved[of "serving (body [(to, Fin 2)])" "from"
        "body [(to, Fin 2)]" "[(to, Fin 2)]" to amt] toFixed_two
    by (simp add: serving_def body_def del: toFixed.simps Number.simps js_times.simps)
  show "convertCurrency (serving (body [(to, Fin 1)])) from to amt \<noteq>
     convertCurrency (serving (body [(to, Fin 2)])) from to amt"
    unfolding 1 2 by simp
qed

theorem convertCurrency_reads_one_response_witness:
  "serving (body usd_rates) (latest_url ''USD'') = elsewhere (latest_url ''USD'')
   \<and> serving (body usd_rates) (latest_url ''EUR'') \<noteq> elsewhere (latest_url ''EUR'')
   \<and> convertCurrency (serving (body usd_rates)) ''USD'' ''EUR'' (Fin 10) =
       convertCurrency elsewhere ''USD'' ''EUR'' (Fin 10)
   \<and> convertCurrency (serving (body [(''EUR'', Fin 1)])) ''USD'' ''EUR'' (Fin 10) \<noteq>
       convertCurrency (serving (body [(''EUR'', Fin 2)])) ''USD'' ''EUR'' (Fin 10)"
  using convertCurrency_reads_one_response[of "serving (body usd_rates)" "''USD''" elsewhere
      "''EUR''" "Fin 10"]
  by (simp add: serving_def elsewhere_def latest_url_def)

text \<open>
  The same three arguments, three networks, three outcomes.
\<close>

theorem convertCurrency_reads_one_response_counterexample:
  "convertCurrency (serving (body usd_rates)) ''USD'' ''EUR'' (Fin 10) =
     Inr \<lparr>ConversionResult.convertedAmount = Fin 9,
          ConversionResult.rate = Fin (8106479329266893 / 9007199254740992)\<rparr>
   \<and> convertCurrency (serving (body later_rates)) ''USD'' ''EUR'' (Fin 10) =
     Inr \<lparr>ConversionResult.convertedAmount = Fin 5, ConversionResult.rate = Fin (1 / 2)\<rparr>
   \<and> convertCurrency (\<lambda>url. Rejected ''Network Error'') ''USD'' ''EUR'' (Fin 10) =
     Inl (Error ''Failed to fetch exchange rates: Network Error'')"
proof -
  have 1: "convertCurrency (serving (body usd_rates)) ''USD'' ''EUR'' (Fin 10) =
     Inr \<lparr>ConversionResult.convertedAmount = Fin 9,
          ConversionResult.rate = Fin (8106479329266893 / 9007199254740992)\<rparr>"
    using convertCurrency_resolved[of "serving (body usd_rates)" "''USD''" "body usd_rates"
        usd_rates "''EUR''" "Fin 10"]
    by (simp add: serving_def body_def usd_rates_def round64_nine_tenths
          times_10_nine_tenths toFixed_9 toFixed_nine_tenths
          del: toFixed.simps Number.simps js_times.simps)
  have 2: "convertCurrency (serving (body later_rates)) ''USD'' ''EUR'' (Fin 10) =
     Inr \<lparr>ConversionResult.convertedAmount = Fin 5, ConversionResult.rate = Fin (1 / 2)\<rparr>"
    using convertCurrency_resolved[of "serving (body later_rates)" "''USD''" "body later_rates"
        later_rates "''EUR''" "Fin 10"]
    by (simp add: serving_def body_def later_rates_def half_eval five_eval
          del: toFixed.simps Number.simps js_times.simps)
  have 3: "convertCurrency (\<lambda>url. Rejected ''Network Error'') ''USD'' ''EUR'' (Fin 10) =
     Inl (Error ''Failed to fetch exchange rates: Network Error'')"
    by (simp add: convertCurrency_def getExchangeRates_rejected)
  from 1 2 3 show ?thesis by simp
qed


section \<open>The claims about the rate provider\<close>

text \<open>
  Claim C7, amended. \<open>getExchangeRates\<close> tells two failures apart. A request that axios
  rejects fails with the message \<^verbatim>\<open>Failed to fetch exchange rates:\<close> followed by the
  message of axios. A response without a body or without a \<^verbatim>\<open>rates\<close> field fails with
  an error that no rejected request produces. Nothing else in the body is read, so a
  body in which the provider reports an unknown base code fails exactly as any other
  body without \<^verbatim>\<open>rates\<close>: there is no third kind of failure.
\<close>

theorem getExchangeRates_failure_kinds:
  "(get (latest_url b) = Rejected m \<longrightarrow>
      getExchangeRates get b = Inl (Error (''Failed to fetch exchange rates: '' @ m)))
   \<and> (get (latest_url b) = Resolved None
        \<or> get (latest_url b) = Resolved (Some d) \<and> CurrencyData.rates d = None \<longrightarrow>
      (\<exists>e. getExchangeRates get b = Inl e
           \<and> (\<forall>m'. getExchangeRates (\<lambda>url. Rejected m') b \<noteq> Inl e)))
   \<and> getExchangeRates (serving (d\<lparr>other := x\<rparr>)) b = getExchangeRates (serving d) b"
proof (intro conjI impI)
  assume "get (latest_url b) = Rejected m"
  then show "getExchangeRates get b = Inl (Error (''Failed to fetch exchange rates: '' @ m))"
    by (rule getExchangeRates_rejected)
next
  assume a: "get (latest_url b) = Resolved None
        \<or> get (latest_url b) = Resolved (Some d) \<and> CurrencyData.rates d = None"
  have "getExchangeRates get b = Inl (Error ''Failed to fetch exchange rates'')"
    using a getExchangeRates_no_rates[of get b d] getExchangeRates_no_data[of get b] by blast
  moreover have "getExchangeRates (\<lambda>url. Rejected m') b \<noteq>
      Inl (Error ''Failed to fetch exchange rates'')" for m'
    using getExchangeRates_rejected[of "\<lambda>url. Rejected m'" b m'] by simp
  ultimately show "\<exists>e. getExchangeRates get b = Inl e
           \<and> (\<forall>m'. getExchangeRates (\<lambda>url. Rejected m') b \<noteq> Inl e)"
    by blast
next
  show "getExchangeRates (serving (d\<lparr>other := x\<rparr>)) b = getExchangeRates (serving d) b"
    by (rule getExchangeRates_other)
qed

theorem getExchangeRates_failure_kinds_witness:
  "getExchangeRates (\<lambda>url. Rejected ''Network Error'') ''USD'' =
     Inl (Error ''Failed to fetch exchange rates: Network Error'')
   \<and> (\<exists>e. getExchangeRates (serving no_rates) ''USD'' = Inl e
          \<and> (\<forall>m'. getExchangeRates (\<lambda>url. Rejected m') ''USD'' \<noteq> Inl e))
   \<and> CurrencyData.rates no_rates = None"
  using getExchangeRates_failure_kinds[of "\<lambda>url. Rejected ''Network Error''" "''USD''"
      "''Network Error''" no_rates "[]"]
    getExchangeRates_failure_kinds[of "serving no_rates" "''USD''" "''''" no_rates "[]"]
  by (simp add: serving_def no_rates_def)

text \<open>
  The body with which the provider reports an unknown base code and a body that merely
  lacks \<^verbatim>\<open>rates\<close> end in the same error.
\<close>

theorem getExchangeRates_failure_kinds_counterexample:
  "CurrencyData.rates unsupported_code = None \<and> CurrencyData.rates no_rates = None
   \<and> other unsupported_code = [(''result'', ''error''), (''error-type'', ''unsupported-code'')]
   \<and> other no_rates = []
   \<and> getExchangeRates (serving unsupported_code) ''XXX'' =
       Inl (Error ''Failed to fetch exchange rates'')
   \<and> getExchangeRates (serving no_rates) ''XXX'' =
       Inl (Error ''Failed to fetch exchange rates'')"
  by (simp add: getExchangeRates_def getExchangeRates_try_def serving_def
        unsupported_code_def no_rates_def)


section \<open>The claims about the component\<close>

text \<open>
  Claim C10. When the amount held by the component is zero or negative,
  \<open>handleConvert\<close> sets the error message \<^verbatim>\<open>Please enter a valid amount\<close> and returns:
  no call is suspended on a request, \<open>loading\<close> is untouched, and the conversion with
  its converted amount and rate is unchanged.
\<close>

theorem handleConvert_rejects_nonpositive:
  assumes "js_le (amount (conversion s)) (Fin 0)"
  shows "handleConvert (s, ps) = (s\<lparr>error := ''Please enter a valid amount''\<rparr>, ps)"
  using assms by (simp add: handleConvert_def)

theorem handleConvert_rejects_nonpositive_witness:
  "js_le (amount (conversion showing)) (Fin 0)
   \<and> handleConvert (showing, []) = (showing\<lparr>error := ''Please enter a valid amount''\<rparr>, [])
   \<and> js_le (amount (conversion (showing\<lparr>conversion := (conversion showing)\<lparr>amount := Fin (- 5)\<rparr>\<rparr>))) (Fin 0)
   \<and> fst (handleConvert (showing\<lparr>conversion := (conversion showing)\<lparr>amount := Fin (- 5)\<rparr>\<rparr>, [])) =
       showing\<lparr>conversion := (conversion showing)\<lparr>amount := Fin (- 5)\<rparr>,
               error := ''Please enter a valid amount''\<rparr>"
  using handleConvert_rejects_nonpositive[of showing "[]"]
    handleConvert_rejects_nonpositive[of
      "showing\<lparr>conversion := (conversion showing)\<lparr>amount := Fin (- 5)\<rparr>\<rparr>" "[]"]
  by (simp add: showing_def)

text \<open>
  Claim C6, amended. \<open>swapCurrencies\<close> exchanges the source and the target currency and
  starts a fetch for the new source currency; the converted amount and the rate held
  from an earlier conversion stay as they are. No handler of the component ever
  clears them.
\<close>

theorem swapCurrencies_keeps_result:
  "swapCurrencies (s, ps) =
     (s\<lparr>conversion := (conversion s)\<lparr>fromCurrency := toCurrency (conversion s),
                                      toCurrency := fromCurrency (conversion s)\<rparr>,
        loading := True, error := ''''\<rparr>,
      ps @ [FetchCurrencies (toCurrency (conversion s))])
   \<and> CurrencyConversion.convertedAmount (conversion (fst (swapCurrencies (s, ps)))) =
       CurrencyConversion.convertedAmount (conversion s)
   \<and> CurrencyConversion.rate (conversion (fst (swapCurrencies (s, ps)))) =
       CurrencyConversion.rate (conversion s)"
  by (simp add: swapCurrencies_def fetchCurrencies_def)

text \<open>
  On the page: the first fetch settles, the user types 10, converts, the conversion
  settles with 9, and the user swaps. The result of the conversion is still held.
\<close>

theorem swapCurrencies_keeps_result_counterexample:
  "run [Settle 0 (serving (body usd_rates)), TypeAmount (Fin 10), ClickConvert,
        Settle 0 (serving (body usd_rates)), ClickSwap] mounted =
     Some (after_swap, [FetchCurrencies ''EUR''])
   \<and> CurrencyConversion.convertedAmount (conversion after_swap) = Some (Fin 9)"
proof -
  have c: "convertCurrency (serving (body usd_rates)) ''USD'' ''EUR'' (Fin 10) =
     Inr \<lparr>ConversionResult.convertedAmount = Fin 9,
          ConversionResult.rate = Fin (8106479329266893 / 9007199254740992)\<rparr>"
    using convertCurrency_resolved[of "serving (body usd_rates)" "''USD''" "body usd_rates"
        usd_rates "''EUR''" "Fin 10"]
    by (simp add: serving_def body_def usd_rates_def round64_nine_tenths
          times_10_nine_tenths toFixed_9 toFixed_nine_tenths
          del: toFixed.simps Number.simps js_times.simps)
  have g: "getExchangeRates (serving (body usd_rates)) ''USD'' =
      Inr \<lparr>ExchangeRates.rates = usd_rates, ExchangeRates.base = None,
           ExchangeRates.date = None\<rparr>"
    by (simp add: getExchangeRates_def getExchangeRates_try_def serving_def body_def)
  show ?thesis
    by (simp add: mounted_def initial_def fetchCurrencies_def settle_def
        fetchCurrencies_resume_def g c Object_keys_def handleAmountChange_def
        handleConvert_def handleConvert_resume_def swapCurrencies_def after_swap_def)
      (simp add: usd_rates_def)
qed

text \<open>
  Claim C3, amended. The handlers carry no request id and store whatever response
  arrives; what keeps a late response from overwriting a later one is that the controls
  that start a request are disabled while \<open>loading\<close> holds. Where React runs the mount
  effect once, as in a production build, in every state the page reaches from mounting
  at most one call is suspended on a request, \<open>loading\<close> holds exactly while one is, no
  further request can be started until it settles, and a fetch that settles with a
  rate table stores the keys of that table and leaves nothing in flight. Nothing is
  said of a development build, where the mount effect runs twice.
\<close>

theorem one_request_in_flight:
  assumes "run es mounted = Some (s, ps)"
  shows "length ps \<le> 1 \<and> loading s = (ps \<noteq> [])
     \<and> (ps \<noteq> [] \<longrightarrow>
          deliver (SelectFrom v) (s, ps) = None \<and> deliver ClickSwap (s, ps) = None
          \<and> deliver ClickConvert (s, ps) = None)
     \<and> (ps = [FetchCurrencies b] \<and> get (latest_url b) = Resolved (Some d)
          \<and> CurrencyData.rates d = Some r \<longrightarrow>
          deliver (Settle 0 get) (s, ps) =
            Some (s\<lparr>currencies := Object_keys r, loading := False\<rparr>, []))"
proof -
  have "quiet (s, ps)" using quiet_run[OF quiet_mounted assms] .
  then have l: "length ps \<le> 1" and ld: "loading s = (ps \<noteq> [])"
    by (simp_all add: quiet_def)
  have shut: "deliver (SelectFrom v) (s, ps) = None \<and> deliver ClickSwap (s, ps) = None
          \<and> deliver ClickConvert (s, ps) = None" if "ps \<noteq> []"
    using that ld by simp
  have st: "deliver (Settle 0 get) (s, ps) =
             Some (s\<lparr>currencies := Object_keys r, loading := False\<rparr>, [])"
    if "ps = [FetchCurrencies b] \<and> get (latest_url b) = Resolved (Some d)
          \<and> CurrencyData.rates d = Some r"
    using settle_fetch_resolved[of get b d r s] that by simp
  from l ld shut st show ?thesis by blast
qed

theorem one_request_in_flight_witness:
  "run [Settle 0 (serving (body usd_rates)), SelectFrom ''EUR''] mounted =
     Some (after_select, [FetchCurrencies ''EUR''])
   \<and> loading after_select
   \<and> deliver (SelectFrom ''USD'') (after_select, [FetchCurrencies ''EUR'']) = None
   \<and> deliver ClickSwap (after_select, [FetchCurrencies ''EUR'']) = None
   \<and> deliver ClickConvert (after_select, [FetchCurrencies ''EUR'']) = None
   \<and> deliver (Settle 0 (serving (body eur_rates))) (after_select, [FetchCurrencies ''EUR'']) =
       Some (after_select\<lparr>currencies := [''EUR'', ''USD''], loading := False\<rparr>, [])"
proof -
  have "serving (body eur_rates) (latest_url ''EUR'') = Resolved (Some (body eur_rates))"
    and "CurrencyData.rates (body eur_rates) = Some eur_rates"
    and "Object_keys eur_rates = [''EUR'', ''USD'']"
    and "loading after_select"
    by (simp_all add: serving_def body_def eur_rates_def Object_keys_def after_select_def)
  then show ?thesis
    using one_request_in_flight[OF run_select, of "''USD''" "''EUR''"
        "serving (body eur_rates)" "body eur_rates" eur_rates] run_select
    by (simp del: deliver.simps run.simps)
qed

text \<open>
  A development build. Both requests of the doubled mount effect are in flight; the
  first settles and enables the controls while the second, A, is still pending. The
  user changes the source currency to \<^verbatim>\<open>EUR\<close>, which issues B. B settles and its list is
  stored; then A settles, and its list replaces that of B beside the source currency
  of B.
\<close>

theorem one_request_in_flight_counterexample:
  "run [Settle 0 (serving (body usd_rates)), SelectFrom ''EUR''] mounted_twice =
     Some (after_select, [FetchCurrencies ''USD'', FetchCurrencies ''EUR''])
   \<and> run [Settle 0 (serving (body usd_rates)), SelectFrom ''EUR'',
          Settle 1 (serving (body eur_rates))] mounted_twice =
     Some (after_select\<lparr>currencies := [''EUR'', ''USD''], loading := False\<rparr>,
           [FetchCurrencies ''USD''])
   \<and> run [Settle 0 (serving (body usd_rates)), SelectFrom ''EUR'',
          Settle 1 (serving (body eur_rates)), Settle 0 (serving (body usd_rates))]
        mounted_twice =
     Some (after_select\<lparr>currencies := [''USD'', ''EUR''], loading := False\<rparr>, [])
   \<and> fromCurrency (conversion after_select) = ''EUR''"
  by (simp add: mounted_twice_def initial_def fetchCurrencies_def settle_def
        fetchCurrencies_resume_def getExchangeRates_def getExchangeRates_try_def
        serving_def body_def usd_rates_def eur_rates_def Object_keys_def
        handleFromCurrencyChange_def after_select_def)

end
